theory Spec2Isabelle
  imports Main
begin

section \<open>The health-check service of templates/python/main.py\<close>

text \<open>
  The program is a Flask application with two GET handlers and one database probe.
  Everything it reads from outside is an argument of the model:
  \<^item> the process environment \<open>os.environ\<close> is a map from names to strings;
  \<^item> the Python library calls whose code is not part of the program (\<open>urlparse\<close>,
    \<open>import psycopg2\<close>, \<open>psycopg2.connect\<close>, the clock, the builtin \<open>int\<close> on a string)
    are the fields of a record \<open>world\<close>, so that every theorem holds for whatever they
    answer;
  \<^item> an exception is a value of type \<open>exn\<close>, and a function that may raise returns
    \<open>exn + 'a\<close> with \<open>Inl\<close> for the exception;
  \<^item> the calls a handler makes to the driver are recorded, in order, in a list of events.
\<close>

subsection \<open>Python values, exceptions and truthiness\<close>

type_synonym environ = "string \<rightharpoonup> string"

text \<open>
  The exceptions that the calls of the program raise, all subclasses of \<open>Exception\<close>:
  \<open>ImportError\<close> (with the module's name), \<open>ValueError\<close> (with its message) and the
  exceptions of the driver's \<open>connect\<close> (with their message).
\<close>

datatype exn = ImportError string | ValueError string | DriverError string

text \<open>\<open>str(e)\<close>. Only the text of a non-import exception is ever used by the program.\<close>

fun exn_text :: "exn \<Rightarrow> string" where
  "exn_text (ImportError m) = ''No module named '' @ m"
| "exn_text (ValueError m) = m"
| "exn_text (DriverError m) = m"

text \<open>
  \<open>os.environ.get(k, d)\<close> with an integer default returns a string or that integer, so
  the argument of \<open>int(...)\<close> is one of the two.
\<close>

datatype pyval = PyStr string | PyInt int

text \<open>Truthiness of \<open>os.environ.get(k)\<close>: \<open>None\<close> and the empty string are false.\<close>

fun truthy :: "string option \<Rightarrow> bool" where
  "truthy None = False"
| "truthy (Some s) = (s \<noteq> [])"

text \<open>\<open>a or b\<close> on two optional strings.\<close>

definition py_or :: "string option \<Rightarrow> string option \<Rightarrow> string option" where
  "py_or a b = (if truthy a then a else b)"

text \<open>\<open>a or d\<close> where \<open>d\<close> is a string.\<close>

definition or_str :: "string option \<Rightarrow> string \<Rightarrow> string" where
  "or_str a d = (case a of Some s \<Rightarrow> (if s \<noteq> [] then s else d) | None \<Rightarrow> d)"

text \<open>\<open>os.environ.get(k, d)\<close> with a string default.\<close>

definition environ_get :: "environ \<Rightarrow> string \<Rightarrow> string \<Rightarrow> string" where
  "environ_get env k d = (case env k of Some v \<Rightarrow> v | None \<Rightarrow> d)"

text \<open>\<open>os.environ.get(k, d)\<close> where the default may be an integer.\<close>

definition environ_get_val :: "environ \<Rightarrow> string \<Rightarrow> pyval \<Rightarrow> pyval" where
  "environ_get_val env k d = (case env k of Some v \<Rightarrow> PyStr v | None \<Rightarrow> d)"

subsection \<open>The outside world\<close>

text \<open>
  The result of \<open>urlparse\<close>, with the attributes the program reads. \<open>hostname\<close>,
  \<open>username\<close> and \<open>password\<close> are \<open>None\<close> or a string, \<open>path\<close> is a string, and reading
  \<open>port\<close> gives \<open>None\<close> or an integer or raises \<open>ValueError\<close> (\<open>Inl\<close> with its message).
\<close>

record parsed_url =
  hostname :: "string option"
  url_port :: "string + int option"
  path :: string
  username :: "string option"
  password :: "string option"

text \<open>The keyword arguments of \<open>psycopg2.connect\<close>.\<close>

record conn_params =
  host :: string
  port :: int
  database :: string
  user :: string
  passwd :: string

text \<open>
  \<open>driver_installed\<close>: whether \<open>import psycopg2\<close> succeeds. \<open>urlparse\<close>: the parsed URL,
  or \<open>Inl\<close> the message of the \<open>ValueError\<close> it raises. \<open>connect\<close>: \<open>None\<close> when the
  connection opens, the message of the driver's exception otherwise. Closing an open
  connection does not fail. \<open>utcnow_isoformat\<close>: \<open>datetime.utcnow().isoformat()\<close>.
  \<open>builtin_int\<close>: the builtin \<open>int\<close> applied to a string, which returns an integer or
  raises \<open>ValueError\<close> (\<open>Inl\<close> with its message). Which strings it accepts (white space,
  signs, underscores, digits of any script, a limit on their number) is the
  interpreter's business and is not fixed here.
\<close>

record world =
  driver_installed :: bool
  urlparse :: "string \<Rightarrow> string + parsed_url"
  connect :: "conn_params \<Rightarrow> string option"
  utcnow_isoformat :: string
  builtin_int :: "string \<Rightarrow> string + int"

datatype event = ImportDriver | Connect conn_params | Close

subsection \<open>The builtin \<open>int\<close>\<close>

text \<open>\<open>int(s)\<close> on a string: the integer, or the \<open>ValueError\<close> raised.\<close>

definition int_of_str :: "world \<Rightarrow> string \<Rightarrow> exn + int" where
  "int_of_str w s = (case builtin_int w s of Inl m \<Rightarrow> Inl (ValueError m) | Inr n \<Rightarrow> Inr n)"

text \<open>\<open>int(x)\<close>: the identity on an integer, \<open>int_of_str\<close> on a string.\<close>

fun py_int :: "world \<Rightarrow> pyval \<Rightarrow> exn + int" where
  "py_int w (PyInt n) = Inr n"
| "py_int w (PyStr s) = int_of_str w s"

subsection \<open>\<open>check_database\<close>\<close>

text \<open>Lines 19 to 27: the keyword arguments when \<open>DATABASE_URL\<close> is truthy, in the order
  Python evaluates them; only the port can raise.\<close>

definition url_kwargs :: "world \<Rightarrow> environ \<Rightarrow> string \<Rightarrow> exn + conn_params" where
  "url_kwargs w env database_url =
     (case urlparse w database_url of
        Inl m \<Rightarrow> Inl (ValueError m)
      | Inr parsed \<Rightarrow>
          (case url_port parsed of
             Inl m \<Rightarrow> Inl (ValueError m)
           | Inr po \<Rightarrow>
               (case (case po of
                        Some n \<Rightarrow> (if n \<noteq> 0 then Inr n
                                   else py_int w (environ_get_val env ''DATABASE_PORT'' (PyInt 5432)))
                      | None \<Rightarrow> py_int w (environ_get_val env ''DATABASE_PORT'' (PyInt 5432))) of
                  Inl e \<Rightarrow> Inl e
                | Inr p \<Rightarrow>
                    Inr \<lparr> host = or_str (hostname parsed) (environ_get env ''DATABASE_HOST'' ''postgres''),
                          port = p,
                          database = (if path parsed \<noteq> [] then drop 1 (path parsed)
                                      else environ_get env ''DATABASE_NAME'' ''postgres''),
                          user = or_str (username parsed) (environ_get env ''DATABASE_USER'' ''pgadmin''),
                          passwd = or_str (password parsed)
                                     (environ_get env ''DATABASE_PASSWORD'' ''admin123'') \<rparr>)))"

text \<open>Lines 30 to 36: the keyword arguments from the individual variables.\<close>

definition env_kwargs :: "world \<Rightarrow> environ \<Rightarrow> exn + conn_params" where
  "env_kwargs w env =
     (case py_int w (environ_get_val env ''DATABASE_PORT'' (environ_get_val env ''DB_PORT'' (PyInt 5432))) of
        Inl e \<Rightarrow> Inl e
      | Inr p \<Rightarrow>
          Inr \<lparr> host = environ_get env ''DATABASE_HOST'' (environ_get env ''DB_HOST'' ''postgres''),
                port = p,
                database = environ_get env ''DATABASE_NAME'' (environ_get env ''DB_NAME'' ''postgres''),
                user = environ_get env ''DATABASE_USER'' (environ_get env ''DB_USER'' ''pgadmin''),
                passwd = environ_get env ''DATABASE_PASSWORD''
                           (environ_get env ''DB_PASSWORD'' ''admin123'') \<rparr>)"

text \<open>Lines 16 to 36: which of the two the \<open>if database_url:\<close> selects.\<close>

definition probe_kwargs :: "world \<Rightarrow> environ \<Rightarrow> string option \<Rightarrow> exn + conn_params" where
  "probe_kwargs w env database_url =
     (case database_url of
        Some u \<Rightarrow> (if u \<noteq> [] then url_kwargs w env u else env_kwargs w env)
      | None \<Rightarrow> env_kwargs w env)"

text \<open>Lines 13 to 39, the body of the \<open>try\<close>: the exception it raises or \<open>()\<close>, and the
  events in order.\<close>

definition try_body :: "world \<Rightarrow> environ \<Rightarrow> string option \<Rightarrow> (exn + unit) \<times> event list" where
  "try_body w env database_url =
     (if \<not> driver_installed w then (Inl (ImportError ''psycopg2''), [ImportDriver])
      else
        (case probe_kwargs w env database_url of
           Inl e \<Rightarrow> (Inl e, [ImportDriver])
         | Inr args \<Rightarrow>
             (case connect w args of
                Some m \<Rightarrow> (Inl (DriverError m), [ImportDriver, Connect args])
              | None \<Rightarrow> (Inr (), [ImportDriver, Connect args, Close]))))"

text \<open>What \<open>check_database\<close> returns: \<open>True\<close> or a string.\<close>

datatype probe_result = PTrue | PText string

text \<open>Lines 8 to 43. \<open>Inl\<close> would be an exception leaving the function.\<close>

definition check_database :: "world \<Rightarrow> environ \<Rightarrow> (exn + probe_result) \<times> event list" where
  "check_database w env =
     (let database_url = env ''DATABASE_URL'' in
      case try_body w env database_url of
        (Inr u, tr) \<Rightarrow> (Inr PTrue, tr)
      | (Inl (ImportError m), tr) \<Rightarrow> (Inr (PText ''psycopg2 not installed''), tr)
      | (Inl e, tr) \<Rightarrow> (Inr (PText (exn_text e)), tr))"

subsection \<open>The handlers and start-up\<close>

text \<open>A response: the dictionary given to \<open>jsonify\<close> and the status code.\<close>

type_synonym response = "(string \<rightharpoonup> string) \<times> nat"

text \<open>Lines 46 to 68.\<close>

definition health :: "world \<Rightarrow> environ \<Rightarrow> (exn + response) \<times> event list" where
  "health w env =
     (let health_status = [''status'' \<mapsto> ''ok'', ''timestamp'' \<mapsto> utcnow_isoformat w @ ''Z''];
          database_url = env ''DATABASE_URL'';
          database_host = py_or (env ''DATABASE_HOST'') (env ''DB_HOST'');
          database_name = py_or (env ''DATABASE_NAME'') (env ''DB_NAME'')
      in if truthy database_url \<or> truthy database_host \<or> truthy database_name then
           (case check_database w env of
              (Inl e, tr) \<Rightarrow> (Inl e, tr)
            | (Inr PTrue, tr) \<Rightarrow> (Inr (health_status(''database'' \<mapsto> ''connected''), 200), tr)
            | (Inr (PText t), tr) \<Rightarrow>
                (Inr (health_status(''database'' \<mapsto> ''error'', ''database_error'' \<mapsto> t), 503), tr))
         else (Inr (health_status, 200), []))"

text \<open>Lines 71 to 76.\<close>

definition root :: "world \<Rightarrow> environ \<Rightarrow> (exn + response) \<times> event list" where
  "root w env = (Inr ([''message'' \<mapsto> ''AI Fabrix Application'', ''version'' \<mapsto> ''1.0.0''], 200), [])"

text \<open>The two routes of the application; any other request is answered by Flask itself.\<close>

datatype http_method = GET | POST | PUT | DELETE

definition serve :: "world \<Rightarrow> environ \<Rightarrow> http_method \<Rightarrow> string \<Rightarrow> ((exn + response) \<times> event list) option" where
  "serve w env m p =
     (if m = GET \<and> p = ''/health'' then Some (health w env)
      else if m = GET \<and> p = ''/'' then Some (root w env)
      else None)"




subsection \<open>The spec's vocabulary\<close>

text \<open>A variable is set when it is in the environment, whatever its value.\<close>

definition is_set :: "environ \<Rightarrow> string \<Rightarrow> bool" where
  "is_set env k = (k \<in> dom env)"

text \<open>"At least one of the connection URL, the host or the database name is set".\<close>

definition db_vars_set :: "environ \<Rightarrow> bool" where
  "db_vars_set env =
     (is_set env ''DATABASE_URL'' \<or> is_set env ''DATABASE_HOST'' \<or> is_set env ''DB_HOST'' \<or>
      is_set env ''DATABASE_NAME'' \<or> is_set env ''DB_NAME'')"

text \<open>The same with "set to a non-empty value" for "set".\<close>

definition db_configured :: "environ \<Rightarrow> bool" where
  "db_configured env =
     (truthy (env ''DATABASE_URL'') \<or> truthy (env ''DATABASE_HOST'') \<or> truthy (env ''DB_HOST'') \<or>
      truthy (env ''DATABASE_NAME'') \<or> truthy (env ''DB_NAME''))"

text \<open>The probe was invoked: its first statement, the import of the driver, was run.\<close>

definition probe_invoked :: "event list \<Rightarrow> bool" where
  "probe_invoked tr = (ImportDriver \<in> set tr)"

text \<open>Two-tier alias precedence: the primary name if set, else the legacy name if set,
  else the default. \<open>f\<close> reads the value of a variable.\<close>

definition two_tier :: "environ \<Rightarrow> string \<Rightarrow> string \<Rightarrow> 'a \<Rightarrow> (string \<Rightarrow> 'a) \<Rightarrow> 'a" where
  "two_tier env primary legacy dflt f =
     (case env primary of
        Some v \<Rightarrow> f v
      | None \<Rightarrow> (case env legacy of Some v \<Rightarrow> f v | None \<Rightarrow> dflt))"

text \<open>One tier: the primary name if set, else the default.\<close>

definition one_tier :: "environ \<Rightarrow> string \<Rightarrow> 'a \<Rightarrow> (string \<Rightarrow> 'a) \<Rightarrow> 'a" where
  "one_tier env primary dflt f = (case env primary of Some v \<Rightarrow> f v | None \<Rightarrow> dflt)"

text \<open>An environment with its five legacy variables replaced (\<open>None\<close>: unset).\<close>

definition with_legacy ::
  "environ \<Rightarrow> string option \<Rightarrow> string option \<Rightarrow> string option \<Rightarrow> string option \<Rightarrow> string option \<Rightarrow> environ" where
  "with_legacy env h p n u pw =
     env(''DB_HOST'' := h, ''DB_PORT'' := p, ''DB_NAME'' := n, ''DB_USER'' := u, ''DB_PASSWORD'' := pw)"

subsection \<open>Concrete worlds and environments\<close>

text \<open>
  What \<open>urlparse\<close> of Python 3 answers on three strings: a URL with credentials, host
  and database but no port; a URL whose path is the single slash; the empty string.
  Any other argument is outside the table.
\<close>

definition sample_urlparse :: "string \<Rightarrow> string + parsed_url" where
  "sample_urlparse u =
     (if u = ''postgresql://u:p@dbhost/app'' then
        Inr \<lparr> hostname = Some ''dbhost'', url_port = Inr None, path = ''/app'',
              username = Some ''u'', password = Some ''p'' \<rparr>
      else if u = ''postgresql://dbhost/'' then
        Inr \<lparr> hostname = Some ''dbhost'', url_port = Inr None, path = ''/'',
              username = None, password = None \<rparr>
      else if u = [] then
        Inr \<lparr> hostname = None, url_port = Inr None, path = [],
              username = None, password = None \<rparr>
      else Inl ''outside the table'')"

text \<open>
  What the builtin \<open>int\<close> of Python 3 answers on the strings of the examples: four
  decimal numerals, and two strings that are not integers, for which it raises
  \<open>ValueError\<close> with the message \<open>invalid literal for int() with base 10:\<close> followed by
  the string between single quotes. Any other argument is outside the table.
\<close>

definition invalid_literal_abc :: string where
  "invalid_literal_abc =
     ''invalid literal for int() with base 10: '' @ [CHR 0x27] @ ''abc'' @ [CHR 0x27]"

definition invalid_literal_5x32 :: string where
  "invalid_literal_5x32 =
     ''invalid literal for int() with base 10: '' @ [CHR 0x27] @ ''5x32'' @ [CHR 0x27]"

definition sample_int :: "string \<Rightarrow> string + int" where
  "sample_int s =
     (if s = ''6543'' then Inr 6543
      else if s = ''6000'' then Inr 6000
      else if s = ''7000'' then Inr 7000
      else if s = ''8080'' then Inr 8080
      else if s = ''abc'' then Inl invalid_literal_abc
      else if s = ''5x32'' then Inl invalid_literal_5x32
      else Inl ''outside the table'')"

text \<open>A world where the driver is installed and every connection opens.\<close>

definition world_up :: world where
  "world_up = \<lparr> driver_installed = True, urlparse = sample_urlparse,
                connect = (\<lambda>c. None), utcnow_isoformat = ''2024-05-01T12:00:00'',
       builtin_int = sample_int \<rparr>"

text \<open>A world where the driver is installed and no connection opens.\<close>

definition world_down :: world where
  "world_down = \<lparr> driver_installed = True, urlparse = sample_urlparse,
                  connect = (\<lambda>c. Some ''connection refused''),
                  utcnow_isoformat = ''2024-05-01T12:00:00'',
       builtin_int = sample_int \<rparr>"

text \<open>A world without the driver.\<close>

definition world_nodriver :: world where
  "world_nodriver = \<lparr> driver_installed = False, urlparse = sample_urlparse,
                      connect = (\<lambda>c. None), utcnow_isoformat = ''2024-05-01T12:00:00'',
       builtin_int = sample_int \<rparr>"

text \<open>The environments of the examples below.\<close>

definition env_two_tier :: environ where
  "env_two_tier = [''DATABASE_HOST'' \<mapsto> ''primary'', ''DB_HOST'' \<mapsto> ''legacy'',
                   ''DB_PORT'' \<mapsto> ''6543'', ''DB_USER'' \<mapsto> ''bob'']"



definition env_url_no_port :: environ where
  "env_url_no_port = [''DATABASE_URL'' \<mapsto> ''postgresql://u:p@dbhost/app'', ''DB_PORT'' \<mapsto> ''7000'']"

definition env_url_database_port :: environ where
  "env_url_database_port =
     [''DATABASE_URL'' \<mapsto> ''postgresql://u:p@dbhost/app'', ''DATABASE_PORT'' \<mapsto> ''6543'',
      ''DB_PORT'' \<mapsto> ''7000'']"

definition env_empty_url :: environ where
  "env_empty_url = [''DATABASE_URL'' \<mapsto> [], ''DB_PORT'' \<mapsto> ''6000'']"

definition env_url_slash :: environ where
  "env_url_slash = [''DATABASE_URL'' \<mapsto> ''postgresql://dbhost/'', ''DATABASE_NAME'' \<mapsto> ''app'',
                    ''DATABASE_PASSWORD'' \<mapsto> ''primarypw'']"

definition env_empty_url_legacy :: environ where
  "env_empty_url_legacy =
     [''DATABASE_URL'' \<mapsto> [], ''DB_HOST'' \<mapsto> ''legacyhost'', ''DB_PORT'' \<mapsto> ''7000'',
      ''DB_NAME'' \<mapsto> ''legacydb'', ''DB_USER'' \<mapsto> ''legacyuser'',
      ''DB_PASSWORD'' \<mapsto> ''legacypw'']"

definition env_url_slash_legacy :: environ where
  "env_url_slash_legacy =
     with_legacy env_url_slash (Some ''legacyhost'') (Some ''7000'') (Some ''legacydb'')
       (Some ''legacyuser'') (Some ''legacypw'')"


section \<open>Auxiliary facts\<close>

lemma py_int_raises: "py_int w v = Inl e \<Longrightarrow> \<exists>m. e = ValueError m"
  by (cases v) (auto simp: int_of_str_def split: sum.splits)

lemma env_kwargs_raises: "env_kwargs w env = Inl e \<Longrightarrow> \<exists>m. e = ValueError m"
  by (auto simp: env_kwargs_def split: sum.splits dest: py_int_raises)

lemma url_kwargs_raises: "url_kwargs w env u = Inl e \<Longrightarrow> \<exists>m. e = ValueError m"
  by (auto simp: url_kwargs_def split: sum.splits option.splits if_splits dest: py_int_raises)

lemma probe_kwargs_raises: "probe_kwargs w env d = Inl e \<Longrightarrow> \<exists>m. e = ValueError m"
  by (auto simp: probe_kwargs_def split: option.splits if_splits
      dest: env_kwargs_raises url_kwargs_raises)

text \<open>\<open>check_database\<close> with its exception handlers applied.\<close>

lemma check_database_cases:
  "check_database w env =
     (if \<not> driver_installed w then (Inr (PText ''psycopg2 not installed''), [ImportDriver])
      else (case probe_kwargs w env (env ''DATABASE_URL'') of
              Inl e \<Rightarrow> (Inr (PText (exn_text e)), [ImportDriver])
            | Inr c \<Rightarrow>
                (case connect w c of
                   Some m \<Rightarrow> (Inr (PText m), [ImportDriver, Connect c])
                 | None \<Rightarrow> (Inr PTrue, [ImportDriver, Connect c, Close]))))"
  by (auto simp: check_database_def try_body_def Let_def
      split: sum.splits option.splits dest: probe_kwargs_raises)

lemma check_database_returns: "\<exists>r tr. check_database w env = (Inr r, tr)"
  by (simp add: check_database_cases split: sum.splits option.splits)

lemma check_database_imports: "ImportDriver \<in> set (snd (check_database w env))"
  by (simp add: check_database_cases split: sum.splits option.splits)

text \<open>The guard of \<open>health\<close> is \<open>db_configured\<close>.\<close>

lemma health_guard:
  "(truthy (env ''DATABASE_URL'') \<or> truthy (py_or (env ''DATABASE_HOST'') (env ''DB_HOST'')) \<or>
    truthy (py_or (env ''DATABASE_NAME'') (env ''DB_NAME''))) = db_configured env"
  by (auto simp: db_configured_def py_or_def)

lemma health_unconfigured:
  "\<not> db_configured env \<Longrightarrow>
   health w env = (Inr ([''status'' \<mapsto> ''ok'', ''timestamp'' \<mapsto> utcnow_isoformat w @ ''Z''], 200), [])"
  using health_guard [of env] by (simp add: health_def Let_def)

lemma health_configured:
  "db_configured env \<Longrightarrow>
   health w env =
     (case check_database w env of
        (Inl e, tr) \<Rightarrow> (Inl e, tr)
      | (Inr PTrue, tr) \<Rightarrow>
          (Inr ([''status'' \<mapsto> ''ok'', ''timestamp'' \<mapsto> utcnow_isoformat w @ ''Z'',
                 ''database'' \<mapsto> ''connected''], 200), tr)
      | (Inr (PText t), tr) \<Rightarrow>
          (Inr ([''status'' \<mapsto> ''ok'', ''timestamp'' \<mapsto> utcnow_isoformat w @ ''Z'',
                 ''database'' \<mapsto> ''error'', ''database_error'' \<mapsto> t], 503), tr))"
  using health_guard [of env] by (simp add: health_def Let_def)

text \<open>A \<open>Connect\<close> event carries the keyword arguments that were resolved.\<close>

lemma connect_event_kwargs:
  "Connect c \<in> set (snd (check_database w env)) \<Longrightarrow>
   driver_installed w \<and> probe_kwargs w env (env ''DATABASE_URL'') = Inr c"
  by (auto simp: check_database_cases split: if_splits sum.splits option.splits)

lemma kwargs_connect_event:
  "driver_installed w \<Longrightarrow> probe_kwargs w env (env ''DATABASE_URL'') = Inr c \<Longrightarrow>
   Connect c \<in> set (snd (check_database w env))"
  by (auto simp: check_database_cases split: option.splits)

lemma environ_get_one_tier: "environ_get env k d = one_tier env k d (\<lambda>v. v)"
  by (simp add: environ_get_def one_tier_def)

lemma environ_get_two_tier:
  "environ_get env k (environ_get env k' d) = two_tier env k k' d (\<lambda>v. v)"
  by (simp add: environ_get_def two_tier_def split: option.splits)

lemma py_int_one_tier:
  "py_int w (environ_get_val env k (PyInt n)) = one_tier env k (Inr n) (int_of_str w)"
  by (simp add: environ_get_val_def one_tier_def split: option.splits)

lemma py_int_two_tier:
  "py_int w (environ_get_val env k (environ_get_val env k' (PyInt n))) =
   two_tier env k k' (Inr n) (int_of_str w)"
  by (simp add: environ_get_val_def two_tier_def split: option.splits)

text \<open>The builtin \<open>int\<close> on the strings of the examples.\<close>

lemma sample_worlds_int:
  "builtin_int world_up = sample_int"
  "builtin_int world_down = sample_int"
  "builtin_int world_nodriver = sample_int"
  by (simp_all add: world_up_def world_down_def world_nodriver_def)

lemma int_of_str_6543: "builtin_int w = sample_int \<Longrightarrow> int_of_str w ''6543'' = Inr 6543"
  by (simp add: int_of_str_def sample_int_def)

lemma int_of_str_6000: "builtin_int w = sample_int \<Longrightarrow> int_of_str w ''6000'' = Inr 6000"
  by (simp add: int_of_str_def sample_int_def)

lemma int_of_str_7000: "builtin_int w = sample_int \<Longrightarrow> int_of_str w ''7000'' = Inr 7000"
  by (simp add: int_of_str_def sample_int_def)




text \<open>The keyword arguments of the URL branch, in the spec's vocabulary.\<close>

lemma url_kwargs_parsed:
  "urlparse w u = Inr pu \<Longrightarrow> url_kwargs w env u = Inr c \<Longrightarrow>
   host c = or_str (hostname pu) (one_tier env ''DATABASE_HOST'' ''postgres'' (\<lambda>v. v)) \<and>
   (\<forall>n. url_port pu = Inr (Some n) \<and> n \<noteq> 0 \<longrightarrow> port c = n) \<and>
   (url_port pu = Inr None \<or> url_port pu = Inr (Some 0) \<longrightarrow>
      Inr (port c) = one_tier env ''DATABASE_PORT'' (Inr 5432) (int_of_str w)) \<and>
   database c = (if path pu \<noteq> [] then drop 1 (path pu)
                 else one_tier env ''DATABASE_NAME'' ''postgres'' (\<lambda>v. v)) \<and>
   user c = or_str (username pu) (one_tier env ''DATABASE_USER'' ''pgadmin'' (\<lambda>v. v)) \<and>
   passwd c = or_str (password pu) (one_tier env ''DATABASE_PASSWORD'' ''admin123'' (\<lambda>v. v))"
  unfolding url_kwargs_def py_int_one_tier environ_get_one_tier
  by (auto split: sum.splits option.splits if_splits)

lemma url_kwargs_no_port:
  "urlparse w u = Inr pu \<Longrightarrow> url_port pu = Inr None \<Longrightarrow>
   one_tier env ''DATABASE_PORT'' (Inr 5432) (int_of_str w) = Inr p \<Longrightarrow>
   \<exists>c. url_kwargs w env u = Inr c \<and> port c = p"
  unfolding url_kwargs_def py_int_one_tier
  by simp


lemma probe_kwargs_url:
  "env ''DATABASE_URL'' = Some u \<Longrightarrow> u \<noteq> [] \<Longrightarrow>
   probe_kwargs w env (env ''DATABASE_URL'') = url_kwargs w env u"
  by (simp add: probe_kwargs_def)

lemma url_kwargs_with_legacy:
  "url_kwargs w (with_legacy env h p n us pw) u = url_kwargs w env u"
proof -
  have g: "environ_get (with_legacy env h p n us pw) k d = environ_get env k d"
    if "k \<notin> {''DB_HOST'', ''DB_PORT'', ''DB_NAME'', ''DB_USER'', ''DB_PASSWORD''}" for k d
    using that by (simp add: with_legacy_def environ_get_def)
  have v: "environ_get_val (with_legacy env h p n us pw) k d = environ_get_val env k d"
    if "k \<notin> {''DB_HOST'', ''DB_PORT'', ''DB_NAME'', ''DB_USER'', ''DB_PASSWORD''}" for k d
    using that by (simp add: with_legacy_def environ_get_val_def)
  show ?thesis
    unfolding url_kwargs_def by (simp add: g v cong: sum.case_cong option.case_cong if_cong)
qed

section \<open>Properties\<close>

text \<open>
  C1, as amended. For every environment, \<open>GET /health\<close> invokes the database probe if
  and only if at least one of \<open>DATABASE_URL\<close>, \<open>DATABASE_HOST\<close>, \<open>DB_HOST\<close>,
  \<open>DATABASE_NAME\<close>, \<open>DB_NAME\<close> is set to a non-empty value. When none is, it returns
  HTTP 200 with a body of exactly the fields \<open>status\<close> and \<open>timestamp\<close> and calls
  nothing, whatever the other variables are.
\<close>

theorem health_probe_iff_configured:
  "probe_invoked (snd (health w env)) = db_configured env \<and>
   (\<not> db_configured env \<longrightarrow>
      (\<exists>b. health w env = (Inr (b, 200), []) \<and> dom b = {''status'', ''timestamp''} \<and>
           b ''status'' = Some ''ok'' \<and> b ''timestamp'' = Some (utcnow_isoformat w @ ''Z'')))"
proof (cases "db_configured env")
  case True
  obtain r tr where cd: "check_database w env = (Inr r, tr)"
    using check_database_returns by blast
  have "ImportDriver \<in> set tr"
    using check_database_imports [of w env] cd by simp
  with True cd show ?thesis
    by (cases r) (simp_all add: health_configured probe_invoked_def)
next
  case False
  then show ?thesis
    by (auto simp: health_unconfigured probe_invoked_def)
qed

text \<open>
  Witness for C1: only user, password and a malformed port are set; the probe is not
  invoked and the body has the two fields.
\<close>

theorem health_probe_iff_configured_witness:
  "\<not> db_configured [''DATABASE_USER'' \<mapsto> ''u'', ''DATABASE_PASSWORD'' \<mapsto> ''p'', ''DATABASE_PORT'' \<mapsto> ''abc''] \<and>
   \<not> probe_invoked (snd (health world_up
        [''DATABASE_USER'' \<mapsto> ''u'', ''DATABASE_PASSWORD'' \<mapsto> ''p'', ''DATABASE_PORT'' \<mapsto> ''abc''])) \<and>
   (\<exists>b. health world_up
          [''DATABASE_USER'' \<mapsto> ''u'', ''DATABASE_PASSWORD'' \<mapsto> ''p'', ''DATABASE_PORT'' \<mapsto> ''abc'']
        = (Inr (b, 200), []) \<and> dom b = {''status'', ''timestamp''})"
proof -
  let ?env = "[''DATABASE_USER'' \<mapsto> ''u'', ''DATABASE_PASSWORD'' \<mapsto> ''p'', ''DATABASE_PORT'' \<mapsto> ''abc'']"
  have n: "\<not> db_configured ?env"
    by (simp add: db_configured_def)
  from n health_probe_iff_configured [of world_up ?env] show ?thesis
    by blast
qed

text \<open>
  C1 as stated fails: with \<open>DATABASE_URL\<close> set to the empty string, one of the
  variables is set and the probe is not invoked.
\<close>

theorem health_set_but_empty_counterexample:
  "db_vars_set [''DATABASE_URL'' \<mapsto> []] \<and>
   \<not> probe_invoked (snd (health world_up [''DATABASE_URL'' \<mapsto> []]))"
  by (simp add: db_vars_set_def is_set_def health_def Let_def py_or_def probe_invoked_def)

text \<open>
  C2. Whenever database configuration is detected, \<open>GET /health\<close> returns HTTP 200 with
  \<open>database\<close> equal to \<open>connected\<close> and no \<open>database_error\<close> exactly when the probe
  returns \<open>True\<close>, and HTTP 503 with \<open>database\<close> equal to \<open>error\<close> and
  \<open>database_error\<close> equal to the probe's text exactly when the probe returns that
  text. In every environment a \<open>database_error\<close> field is present only when the probe
  was invoked and returned a text.
\<close>

theorem health_reports_probe_result:
  "(db_configured env \<longrightarrow>
      ((fst (check_database w env) = Inr PTrue) =
         (\<exists>b. fst (health w env) = Inr (b, 200) \<and> b ''database'' = Some ''connected'' \<and>
              b ''database_error'' = None)) \<and>
      ((fst (check_database w env) = Inr (PText t)) =
         (\<exists>b. fst (health w env) = Inr (b, 503) \<and> b ''database'' = Some ''error'' \<and>
              b ''database_error'' = Some t)) \<and>
      snd (health w env) = snd (check_database w env)) \<and>
   ((\<exists>b c. fst (health w env) = Inr (b, c) \<and> b ''database_error'' \<noteq> None) =
      (db_configured env \<and> (\<exists>t'. fst (check_database w env) = Inr (PText t'))))"
proof (cases "db_configured env")
  case True
  obtain r tr where cd: "check_database w env = (Inr r, tr)"
    using check_database_returns by blast
  from True cd show ?thesis
    by (cases r) (auto simp: health_configured)
next
  case False
  then show ?thesis
    by (auto simp: health_unconfigured)
qed

text \<open>
  Witness for C2: a host is configured; where connections open the answer is 200 and
  \<open>connected\<close>, where they are refused it is 503 with the driver's text.
\<close>

theorem health_reports_probe_result_witness:
  "db_configured [''DATABASE_HOST'' \<mapsto> ''db''] \<and>
   fst (check_database world_up [''DATABASE_HOST'' \<mapsto> ''db'']) = Inr PTrue \<and>
   (\<exists>b. fst (health world_up [''DATABASE_HOST'' \<mapsto> ''db'']) = Inr (b, 200) \<and>
        b ''database'' = Some ''connected'' \<and> b ''database_error'' = None) \<and>
   fst (check_database world_down [''DATABASE_HOST'' \<mapsto> ''db'']) = Inr (PText ''connection refused'') \<and>
   (\<exists>b. fst (health world_down [''DATABASE_HOST'' \<mapsto> ''db'']) = Inr (b, 503) \<and>
        b ''database'' = Some ''error'' \<and> b ''database_error'' = Some ''connection refused'')"
proof -
  let ?env = "[''DATABASE_HOST'' \<mapsto> ''db'']"
  have c: "db_configured ?env"
    by (simp add: db_configured_def)
  have k: "probe_kwargs w ?env (?env ''DATABASE_URL'') =
      Inr \<lparr> host = ''db'', port = 5432, database = ''postgres'', user = ''pgadmin'', passwd = ''admin123'' \<rparr>" for w
    by (simp add: probe_kwargs_def env_kwargs_def environ_get_val_def environ_get_def)
  have up: "fst (check_database world_up ?env) = Inr PTrue"
    unfolding check_database_cases k by (simp add: world_up_def)
  have down: "fst (check_database world_down ?env) = Inr (PText ''connection refused'')"
    unfolding check_database_cases k by (simp add: world_down_def)
  from c up health_reports_probe_result [of ?env world_up]
  have 1: "\<exists>b. fst (health world_up ?env) = Inr (b, 200) \<and>
        b ''database'' = Some ''connected'' \<and> b ''database_error'' = None"
    by blast
  from c down health_reports_probe_result [of ?env world_down "''connection refused''"]
  have 2: "\<exists>b. fst (health world_down ?env) = Inr (b, 503) \<and>
        b ''database'' = Some ''error'' \<and> b ''database_error'' = Some ''connection refused''"
    by blast
  from c up down 1 2 show ?thesis
    by blast
qed




text \<open>
  C4, as amended. For every environment in which \<open>DATABASE_URL\<close> is set to a non-empty
  value whose parsed URL has no port component, every connection the probe opens uses
  the integer that \<open>int\<close> reads from \<open>DATABASE_PORT\<close> if that variable is set, and 5432
  otherwise; with the driver installed and a port value that \<open>int\<close> accepts, the probe
  does call \<open>connect\<close> with that port.
\<close>

theorem url_without_port_uses_database_port:
  assumes "env ''DATABASE_URL'' = Some u" and "u \<noteq> []"
    and "urlparse w u = Inr pu" and "url_port pu = Inr None"
  shows "(\<forall>c. Connect c \<in> set (snd (check_database w env)) \<longrightarrow>
            Inr (port c) = one_tier env ''DATABASE_PORT'' (Inr 5432) (int_of_str w)) \<and>
         (\<forall>p. driver_installed w \<and>
              one_tier env ''DATABASE_PORT'' (Inr 5432) (int_of_str w) = Inr p \<longrightarrow>
              (\<exists>c. Connect c \<in> set (snd (check_database w env)) \<and> port c = p))"
proof -
  have k: "probe_kwargs w env (env ''DATABASE_URL'') = url_kwargs w env u"
    using assms(1,2) by (rule probe_kwargs_url)
  have a: "Inr (port c) = one_tier env ''DATABASE_PORT'' (Inr 5432) (int_of_str w)"
    if "Connect c \<in> set (snd (check_database w env))" for c
  proof -
    from that have "url_kwargs w env u = Inr c"
      using connect_event_kwargs k by metis
    with assms(3,4) show ?thesis
      using url_kwargs_parsed by blast
  qed
  have b: "\<exists>c. Connect c \<in> set (snd (check_database w env)) \<and> port c = p"
    if "driver_installed w"
      and "one_tier env ''DATABASE_PORT'' (Inr 5432) (int_of_str w) = Inr p" for p
  proof -
    from assms(3,4) that(2) obtain c where c: "url_kwargs w env u = Inr c" "port c = p"
      using url_kwargs_no_port by blast
    with that(1) k have "Connect c \<in> set (snd (check_database w env))"
      by (simp add: kwargs_connect_event)
    with c show ?thesis by blast
  qed
  from a b show ?thesis by blast
qed

text \<open>
  Witness for C4: the URL \<open>postgresql://u:p@dbhost/app\<close> has no port. With only the
  legacy \<open>DB_PORT\<close> set the probe connects on 5432; with \<open>DATABASE_PORT\<close> set to 6543 it
  connects on 6543.
\<close>

theorem url_without_port_uses_database_port_witness:
  "(\<exists>c. Connect c \<in> set (snd (check_database world_up env_url_no_port)) \<and> port c = 5432) \<and>
   (\<exists>c. Connect c \<in> set (snd (check_database world_up env_url_database_port)) \<and> port c = 6543)"
proof -
  let ?u = "''postgresql://u:p@dbhost/app''"
  let ?pu = "\<lparr> hostname = Some ''dbhost'', url_port = Inr None, path = ''/app'',
              username = Some ''u'', password = Some ''p'' \<rparr>"
  have p: "urlparse world_up ?u = Inr ?pu"
    by (simp add: world_up_def sample_urlparse_def)
  have d: "driver_installed world_up"
    by (simp add: world_up_def)
  have 1: "one_tier env_url_no_port ''DATABASE_PORT'' (Inr 5432) (int_of_str world_up) = Inr 5432"
    by (simp add: one_tier_def env_url_no_port_def)
  have 2: "one_tier env_url_database_port ''DATABASE_PORT'' (Inr 5432) (int_of_str world_up) = Inr 6543"
    by (simp add: one_tier_def env_url_database_port_def int_of_str_6543 sample_worlds_int)
  have "\<exists>c. Connect c \<in> set (snd (check_database world_up env_url_no_port)) \<and> port c = 5432"
    using url_without_port_uses_database_port [of env_url_no_port ?u world_up ?pu] p d 1
    by (simp add: env_url_no_port_def)
  moreover
  have "\<exists>c. Connect c \<in> set (snd (check_database world_up env_url_database_port)) \<and> port c = 6543"
    using url_without_port_uses_database_port [of env_url_database_port ?u world_up ?pu] p d 2
    by (simp add: env_url_database_port_def)
  ultimately show ?thesis by blast
qed

text \<open>
  C4 as stated fails: with \<open>DATABASE_URL\<close> set to the empty string, whose URL has no port
  component, and \<open>DATABASE_PORT\<close> unset, the probe takes the branch of the individual
  variables and connects on the port of \<open>DB_PORT\<close>, here 6000, not on 5432.
\<close>

theorem empty_url_uses_legacy_port_counterexample:
  "env_empty_url ''DATABASE_URL'' = Some [] \<and>
   urlparse world_up [] = Inr \<lparr> hostname = None, url_port = Inr None, path = [],
                                 username = None, password = None \<rparr> \<and>
   env_empty_url ''DATABASE_PORT'' = None \<and>
   snd (check_database world_up env_empty_url) =
     [ImportDriver,
      Connect \<lparr> host = ''postgres'', port = 6000, database = ''postgres'', user = ''pgadmin'',
                passwd = ''admin123'' \<rparr>,
      Close]"
  by (simp add: check_database_cases probe_kwargs_def env_kwargs_def env_empty_url_def
      environ_get_def environ_get_val_def world_up_def sample_urlparse_def int_of_str_6000 sample_worlds_int)

text \<open>
  C5. For every environment in which \<open>DATABASE_URL\<close> is not set, every connection the
  probe opens has each parameter resolved by two-tier precedence: the primary name if
  set, else the legacy name if set, else the default (host \<open>postgres\<close>, port 5432,
  database \<open>postgres\<close>, user \<open>pgadmin\<close>, password \<open>admin123\<close>), the port being the
  integer that \<open>int\<close> reads from the chosen value. With the driver installed and a port
  value that \<open>int\<close> accepts, the probe does call \<open>connect\<close>.
\<close>

theorem no_url_two_tier_precedence:
  assumes "env ''DATABASE_URL'' = None"
  shows "(\<forall>c. Connect c \<in> set (snd (check_database w env)) \<longrightarrow>
            host c = two_tier env ''DATABASE_HOST'' ''DB_HOST'' ''postgres'' (\<lambda>v. v) \<and>
            Inr (port c) = two_tier env ''DATABASE_PORT'' ''DB_PORT'' (Inr 5432) (int_of_str w) \<and>
            database c = two_tier env ''DATABASE_NAME'' ''DB_NAME'' ''postgres'' (\<lambda>v. v) \<and>
            user c = two_tier env ''DATABASE_USER'' ''DB_USER'' ''pgadmin'' (\<lambda>v. v) \<and>
            passwd c = two_tier env ''DATABASE_PASSWORD'' ''DB_PASSWORD'' ''admin123'' (\<lambda>v. v)) \<and>
         (\<forall>p. driver_installed w \<and>
              two_tier env ''DATABASE_PORT'' ''DB_PORT'' (Inr 5432) (int_of_str w) = Inr p \<longrightarrow>
              (\<exists>c. Connect c \<in> set (snd (check_database w env)) \<and> port c = p))"
proof -
  have k: "probe_kwargs w env (env ''DATABASE_URL'') = env_kwargs w env"
    using assms by (simp add: probe_kwargs_def)
  have a: "host c = two_tier env ''DATABASE_HOST'' ''DB_HOST'' ''postgres'' (\<lambda>v. v) \<and>
            Inr (port c) = two_tier env ''DATABASE_PORT'' ''DB_PORT'' (Inr 5432) (int_of_str w) \<and>
            database c = two_tier env ''DATABASE_NAME'' ''DB_NAME'' ''postgres'' (\<lambda>v. v) \<and>
            user c = two_tier env ''DATABASE_USER'' ''DB_USER'' ''pgadmin'' (\<lambda>v. v) \<and>
            passwd c = two_tier env ''DATABASE_PASSWORD'' ''DB_PASSWORD'' ''admin123'' (\<lambda>v. v)"
    if "Connect c \<in> set (snd (check_database w env))" for c
  proof -
    from that have "env_kwargs w env = Inr c"
      using connect_event_kwargs k by metis
    then show ?thesis
      unfolding env_kwargs_def py_int_two_tier environ_get_two_tier
      by (auto split: sum.splits)
  qed
  have b: "\<exists>c. Connect c \<in> set (snd (check_database w env)) \<and> port c = p"
    if "driver_installed w"
      and "two_tier env ''DATABASE_PORT'' ''DB_PORT'' (Inr 5432) (int_of_str w) = Inr p" for p
  proof -
    from that(2) obtain c where c: "env_kwargs w env = Inr c" "port c = p"
      unfolding env_kwargs_def py_int_two_tier by simp
    with that(1) k have "Connect c \<in> set (snd (check_database w env))"
      by (simp add: kwargs_connect_event)
    with c show ?thesis by blast
  qed
  from a b show ?thesis by blast
qed

text \<open>
  Witness for C5: no URL; the host is set under both names, the port and the user only
  under the legacy names, database and password under neither. The probe connects to
  the primary host, on the legacy port, as the legacy user, with the defaults for the
  rest.
\<close>

theorem no_url_two_tier_precedence_witness:
  "env_two_tier ''DATABASE_URL'' = None \<and>
   Connect \<lparr> host = ''primary'', port = 6543, database = ''postgres'', user = ''bob'',
             passwd = ''admin123'' \<rparr>
     \<in> set (snd (check_database world_up env_two_tier))"
proof -
  have u: "env_two_tier ''DATABASE_URL'' = None"
    by (simp add: env_two_tier_def)
  have d: "driver_installed world_up"
    by (simp add: world_up_def)
  have p: "two_tier env_two_tier ''DATABASE_PORT'' ''DB_PORT'' (Inr 5432) (int_of_str world_up) = Inr 6543"
    by (simp add: two_tier_def env_two_tier_def int_of_str_6543 sample_worlds_int)
  note t = no_url_two_tier_precedence [of env_two_tier world_up]
  from t u d p
  obtain c where c: "Connect c \<in> set (snd (check_database world_up env_two_tier))" "port c = 6543"
    by blast
  with t u
  have "host c = ''primary'' \<and> database c = ''postgres'' \<and> user c = ''bob'' \<and>
        passwd c = ''admin123''"
    by (simp add: two_tier_def env_two_tier_def)
  with c have "c = \<lparr> host = ''primary'', port = 6543, database = ''postgres'', user = ''bob'',
             passwd = ''admin123'' \<rparr>"
    by simp
  with c u show ?thesis by simp
qed

text \<open>
  C6. The probe has three outcomes and never raises. It returns \<open>True\<close> after one
  \<open>connect\<close> followed at once by \<open>close\<close>; it returns the fixed text
  \<open>psycopg2 not installed\<close> when the driver cannot be imported, without any call;
  otherwise it returns the text of the error raised, either by the one \<open>connect\<close>
  call, after which nothing more is called, or while the arguments of that call were
  computed, in which case \<open>connect\<close> is not called. No outcome has a second \<open>connect\<close>.
\<close>

theorem check_database_three_outcomes:
  "(driver_installed w \<and>
      (\<exists>c. probe_kwargs w env (env ''DATABASE_URL'') = Inr c \<and> connect w c = None \<and>
           check_database w env = (Inr PTrue, [ImportDriver, Connect c, Close]))) \<or>
   (\<not> driver_installed w \<and>
      check_database w env = (Inr (PText ''psycopg2 not installed''), [ImportDriver])) \<or>
   (driver_installed w \<and>
      ((\<exists>c m. probe_kwargs w env (env ''DATABASE_URL'') = Inr c \<and> connect w c = Some m \<and>
           check_database w env = (Inr (PText m), [ImportDriver, Connect c])) \<or>
       (\<exists>m. probe_kwargs w env (env ''DATABASE_URL'') = Inl (ValueError m) \<and>
           check_database w env = (Inr (PText m), [ImportDriver]))))"
proof (cases "driver_installed w")
  case False
  then show ?thesis
    by (simp add: check_database_cases)
next
  case True
  show ?thesis
  proof (cases "probe_kwargs w env (env ''DATABASE_URL'')")
    case (Inl e)
    then obtain m where "e = ValueError m"
      using probe_kwargs_raises by blast
    with True Inl show ?thesis
      by (simp add: check_database_cases)
  next
    case (Inr c)
    with True show ?thesis
      by (cases "connect w c") (simp_all add: check_database_cases)
  qed
qed

text \<open>
  Witness for C6: without the driver the probe returns the fixed text after the import
  alone; with the driver and a server that refuses, it returns the driver's text after
  one \<open>connect\<close>; with the driver and a server that accepts, it returns \<open>True\<close> after
  one \<open>connect\<close> and the \<open>close\<close>.
\<close>

theorem check_database_three_outcomes_witness:
  "check_database world_nodriver env_two_tier =
     (Inr (PText ''psycopg2 not installed''), [ImportDriver]) \<and>
   fst (check_database world_down env_two_tier) = Inr (PText ''connection refused'') \<and>
   length (snd (check_database world_down env_two_tier)) = 2 \<and>
   fst (check_database world_up env_two_tier) = Inr PTrue \<and>
   length (snd (check_database world_up env_two_tier)) = 3"
proof -
  have n: "\<not> driver_installed world_nodriver"
    by (simp add: world_nodriver_def)
  have 1: "check_database world_nodriver env_two_tier =
     (Inr (PText ''psycopg2 not installed''), [ImportDriver])"
    using check_database_three_outcomes [of world_nodriver env_two_tier] n by simp
  have k: "probe_kwargs w env_two_tier (env_two_tier ''DATABASE_URL'') =
      Inr \<lparr> host = ''primary'', port = 6543, database = ''postgres'', user = ''bob'',
            passwd = ''admin123'' \<rparr>" if "builtin_int w = sample_int" for w
    using that
    by (simp add: probe_kwargs_def env_kwargs_def environ_get_val_def environ_get_def
        env_two_tier_def int_of_str_6543)
  have d: "connect world_down c = Some ''connection refused''" "driver_installed world_down" for c
    by (simp_all add: world_down_def)
  have u: "connect world_up c = None" "driver_installed world_up" for c
    by (simp_all add: world_up_def)
  have 2: "fst (check_database world_down env_two_tier) = Inr (PText ''connection refused'') \<and>
      length (snd (check_database world_down env_two_tier)) = 2"
    using check_database_three_outcomes [of world_down env_two_tier] d k [OF sample_worlds_int(2)]
    by auto
  have 3: "fst (check_database world_up env_two_tier) = Inr PTrue \<and>
      length (snd (check_database world_up env_two_tier)) = 3"
    using check_database_three_outcomes [of world_up env_two_tier] u k [OF sample_worlds_int(1)]
    by auto
  from 1 2 3 show ?thesis by simp
qed

text \<open>
  C7. In every \<open>GET /health\<close> response, the 503 response included, the field \<open>status\<close>
  is the string \<open>ok\<close>; the handler always answers, with 200 or 503.
\<close>

theorem health_status_always_ok:
  "\<exists>b c tr. health w env = (Inr (b, c), tr) \<and> b ''status'' = Some ''ok'' \<and> (c = 200 \<or> c = 503)"
proof (cases "db_configured env")
  case True
  obtain r tr where cd: "check_database w env = (Inr r, tr)"
    using check_database_returns by blast
  from True cd show ?thesis
    by (cases r) (simp_all add: health_configured)
next
  case False
  then show ?thesis
    by (simp add: health_unconfigured)
qed

text \<open>
  C8. For every environment and every state of the outside world, \<open>GET /\<close> returns HTTP
  200 with exactly the body \<open>{"message": "AI Fabrix Application", "version": "1.0.0"}\<close>,
  raises nothing and performs no driver call.
\<close>

theorem root_fixed_response:
  "serve w env GET ''/'' =
     Some (Inr ([''message'' \<mapsto> ''AI Fabrix Application'', ''version'' \<mapsto> ''1.0.0''], 200), [])"
  by (simp add: serve_def root_def)

text \<open>
  C9, as amended. When \<open>DATABASE_URL\<close> is set to a non-empty value (the test of
  \<open>if database_url:\<close>), the legacy \<open>DB_*\<close> variables are never consulted: replacing
  them by any values, or unsetting them, changes neither the result of the probe nor
  its calls. Every connection it opens takes each component from the URL when that
  component is present (truthy), and otherwise from the primary variable if set, else
  from the default.
\<close>

theorem url_branch_ignores_legacy:
  assumes "env ''DATABASE_URL'' = Some u" and "u \<noteq> []"
  shows "check_database w (with_legacy env h p n us pw) = check_database w env \<and>
         (\<forall>pu c. urlparse w u = Inr pu \<and> Connect c \<in> set (snd (check_database w env)) \<longrightarrow>
            host c = or_str (hostname pu) (one_tier env ''DATABASE_HOST'' ''postgres'' (\<lambda>v. v)) \<and>
            (\<forall>k. url_port pu = Inr (Some k) \<and> k \<noteq> 0 \<longrightarrow> port c = k) \<and>
            (url_port pu = Inr None \<or> url_port pu = Inr (Some 0) \<longrightarrow>
               Inr (port c) = one_tier env ''DATABASE_PORT'' (Inr 5432) (int_of_str w)) \<and>
            database c = (if path pu \<noteq> [] then drop 1 (path pu)
                          else one_tier env ''DATABASE_NAME'' ''postgres'' (\<lambda>v. v)) \<and>
            user c = or_str (username pu) (one_tier env ''DATABASE_USER'' ''pgadmin'' (\<lambda>v. v)) \<and>
            passwd c = or_str (password pu)
                         (one_tier env ''DATABASE_PASSWORD'' ''admin123'' (\<lambda>v. v)))"
proof -
  have k: "probe_kwargs w env (env ''DATABASE_URL'') = url_kwargs w env u"
    using assms by (rule probe_kwargs_url)
  have l: "with_legacy env h p n us pw ''DATABASE_URL'' = Some u"
    using assms(1) by (simp add: with_legacy_def)
  have "probe_kwargs w (with_legacy env h p n us pw) (with_legacy env h p n us pw ''DATABASE_URL'') =
        url_kwargs w (with_legacy env h p n us pw) u"
    using l assms(2) by (rule probe_kwargs_url)
  with k have "probe_kwargs w (with_legacy env h p n us pw) (with_legacy env h p n us pw ''DATABASE_URL'') =
        probe_kwargs w env (env ''DATABASE_URL'')"
    by (simp add: url_kwargs_with_legacy)
  then have a: "check_database w (with_legacy env h p n us pw) = check_database w env"
    by (simp add: check_database_cases)
  have b: "host c = or_str (hostname pu) (one_tier env ''DATABASE_HOST'' ''postgres'' (\<lambda>v. v)) \<and>
            (\<forall>k. url_port pu = Inr (Some k) \<and> k \<noteq> 0 \<longrightarrow> port c = k) \<and>
            (url_port pu = Inr None \<or> url_port pu = Inr (Some 0) \<longrightarrow>
               Inr (port c) = one_tier env ''DATABASE_PORT'' (Inr 5432) (int_of_str w)) \<and>
            database c = (if path pu \<noteq> [] then drop 1 (path pu)
                          else one_tier env ''DATABASE_NAME'' ''postgres'' (\<lambda>v. v)) \<and>
            user c = or_str (username pu) (one_tier env ''DATABASE_USER'' ''pgadmin'' (\<lambda>v. v)) \<and>
            passwd c = or_str (password pu)
                         (one_tier env ''DATABASE_PASSWORD'' ''admin123'' (\<lambda>v. v))"
    if "urlparse w u = Inr pu" and "Connect c \<in> set (snd (check_database w env))" for pu c
  proof -
    from that(2) have "url_kwargs w env u = Inr c"
      using connect_event_kwargs k by metis
    with that(1) show ?thesis
      by (rule url_kwargs_parsed)
  qed
  from a b show ?thesis by blast
qed

text \<open>
  Witness for C9: the URL \<open>postgresql://dbhost/\<close> has no user, password or port. With
  all five legacy variables set the probe still connects as the default user, with the
  primary password, on the default port.
\<close>

theorem url_branch_ignores_legacy_witness:
  "check_database world_up env_url_slash_legacy = check_database world_up env_url_slash \<and>
   env_url_slash_legacy ''DB_USER'' = Some ''legacyuser'' \<and>
   env_url_slash_legacy ''DB_PASSWORD'' = Some ''legacypw'' \<and>
   snd (check_database world_up env_url_slash_legacy) =
     [ImportDriver,
      Connect \<lparr> host = ''dbhost'', port = 5432, database = [], user = ''pgadmin'',
                passwd = ''primarypw'' \<rparr>,
      Close]"
proof -
  let ?u = "''postgresql://dbhost/''"
  have u: "env_url_slash ''DATABASE_URL'' = Some ?u"
    by (simp add: env_url_slash_def)
  have n: "?u \<noteq> []"
    by simp
  have e: "check_database world_up env_url_slash_legacy = check_database world_up env_url_slash"
    unfolding env_url_slash_legacy_def
    using url_branch_ignores_legacy [of env_url_slash ?u world_up] u n by blast
  have t: "snd (check_database world_up env_url_slash) =
     [ImportDriver,
      Connect \<lparr> host = ''dbhost'', port = 5432, database = [], user = ''pgadmin'',
                passwd = ''primarypw'' \<rparr>,
      Close]"
    by (simp add: check_database_cases probe_kwargs_def url_kwargs_def env_url_slash_def
        environ_get_def environ_get_val_def or_str_def world_up_def sample_urlparse_def)
  have l: "env_url_slash_legacy ''DB_USER'' = Some ''legacyuser'' \<and>
           env_url_slash_legacy ''DB_PASSWORD'' = Some ''legacypw''"
    by (simp add: env_url_slash_legacy_def with_legacy_def)
  from e t l show ?thesis by simp
qed

text \<open>
  C9 as stated fails: with \<open>DATABASE_URL\<close> set to the empty string the probe takes the
  branch of the individual variables, where the legacy names are consulted. With the
  five legacy variables set it connects with their values; with the same variables
  unset it connects with the defaults.
\<close>

theorem empty_url_consults_legacy_counterexample:
  "env_empty_url_legacy ''DATABASE_URL'' = Some [] \<and>
   snd (check_database world_up env_empty_url_legacy) =
     [ImportDriver,
      Connect \<lparr> host = ''legacyhost'', port = 7000, database = ''legacydb'',
                user = ''legacyuser'', passwd = ''legacypw'' \<rparr>,
      Close] \<and>
   snd (check_database world_up (with_legacy env_empty_url_legacy None None None None None)) =
     [ImportDriver,
      Connect \<lparr> host = ''postgres'', port = 5432, database = ''postgres'', user = ''pgadmin'',
                passwd = ''admin123'' \<rparr>,
      Close]"
  by (simp add: check_database_cases probe_kwargs_def env_kwargs_def env_empty_url_legacy_def
      with_legacy_def environ_get_def environ_get_val_def int_of_str_7000 sample_worlds_int
      world_up_def)

text \<open>
  C10. When \<open>DATABASE_URL\<close> is set and the path of its URL is exactly \<open>/\<close>, every
  connection the probe opens has the empty string as database name, and with the driver
  installed and a port that resolves the probe does open one. The fallback to
  \<open>DATABASE_NAME\<close> and the default \<open>postgres\<close> is taken only when the path is empty; a
  non-empty path always gives the path without its first character.
\<close>

theorem url_slash_path_gives_empty_database:
  assumes "env ''DATABASE_URL'' = Some u" and "u \<noteq> []" and "urlparse w u = Inr pu"
  shows "(\<forall>c. Connect c \<in> set (snd (check_database w env)) \<longrightarrow>
            (path pu = ''/'' \<longrightarrow> database c = []) \<and>
            (path pu = [] \<longrightarrow> database c = one_tier env ''DATABASE_NAME'' ''postgres'' (\<lambda>v. v)) \<and>
            (path pu \<noteq> [] \<longrightarrow> database c = drop 1 (path pu))) \<and>
         (\<forall>p. path pu = ''/'' \<and> driver_installed w \<and> url_port pu = Inr None \<and>
              one_tier env ''DATABASE_PORT'' (Inr 5432) (int_of_str w) = Inr p \<longrightarrow>
              (\<exists>c. Connect c \<in> set (snd (check_database w env)) \<and> database c = []))"
proof -
  have k: "probe_kwargs w env (env ''DATABASE_URL'') = url_kwargs w env u"
    using assms(1,2) by (rule probe_kwargs_url)
  have a: "(path pu = ''/'' \<longrightarrow> database c = []) \<and>
            (path pu = [] \<longrightarrow> database c = one_tier env ''DATABASE_NAME'' ''postgres'' (\<lambda>v. v)) \<and>
            (path pu \<noteq> [] \<longrightarrow> database c = drop 1 (path pu))"
    if "Connect c \<in> set (snd (check_database w env))" for c
  proof -
    from that have "url_kwargs w env u = Inr c"
      using connect_event_kwargs k by metis
    with assms(3) have "database c = (if path pu \<noteq> [] then drop 1 (path pu)
                 else one_tier env ''DATABASE_NAME'' ''postgres'' (\<lambda>v. v))"
      using url_kwargs_parsed by blast
    then show ?thesis by auto
  qed
  have b: "\<exists>c. Connect c \<in> set (snd (check_database w env)) \<and> database c = []"
    if "path pu = ''/''" and "driver_installed w" and "url_port pu = Inr None"
      and "one_tier env ''DATABASE_PORT'' (Inr 5432) (int_of_str w) = Inr p" for p
  proof -
    from assms(3) that(3,4) obtain c where c: "url_kwargs w env u = Inr c"
      using url_kwargs_no_port by blast
    with that(2) k have e: "Connect c \<in> set (snd (check_database w env))"
      by (simp add: kwargs_connect_event)
    with a that(1) have "database c = []" by blast
    with e show ?thesis by blast
  qed
  from a b show ?thesis by blast
qed

text \<open>
  Witness for C10: the URL \<open>postgresql://dbhost/\<close> with \<open>DATABASE_NAME=app\<close>; the probe
  connects with the empty database name.
\<close>

theorem url_slash_path_gives_empty_database_witness:
  "env_url_slash ''DATABASE_NAME'' = Some ''app'' \<and>
   (\<exists>c. Connect c \<in> set (snd (check_database world_up env_url_slash)) \<and> database c = [])"
proof -
  let ?u = "''postgresql://dbhost/''"
  let ?pu = "\<lparr> hostname = Some ''dbhost'', url_port = Inr None, path = ''/'',
              username = None, password = None \<rparr>"
  have u: "env_url_slash ''DATABASE_URL'' = Some ?u"
    by (simp add: env_url_slash_def)
  have n: "?u \<noteq> []"
    by simp
  have p: "urlparse world_up ?u = Inr ?pu"
    by (simp add: world_up_def sample_urlparse_def)
  have d: "driver_installed world_up"
    by (simp add: world_up_def)
  have q: "one_tier env_url_slash ''DATABASE_PORT'' (Inr 5432) (int_of_str world_up) = Inr 5432"
    by (simp add: one_tier_def env_url_slash_def)
  have "\<exists>c. Connect c \<in> set (snd (check_database world_up env_url_slash)) \<and> database c = []"
    using url_slash_path_gives_empty_database [of env_url_slash ?u world_up ?pu] u n p d q by simp
  moreover have "env_url_slash ''DATABASE_NAME'' = Some ''app''"
    by (simp add: env_url_slash_def)
  ultimately show ?thesis by blast
qed

end
